theory Spec2Isabelle
  imports Complex_Main
begin

section \<open>Conventions of the embedding\<close>

text \<open>
  The development embeds \<^verbatim>\<open>src/functional_bcd.py\<close>: the parameter and history store
  \<^verbatim>\<open>BCDParams\<close> and the augmented-Lagrangian block-coordinate-descent driver
  \<^verbatim>\<open>optimize\<close>.

  \<^item> Python numbers are modelled as the real numbers: rounding, overflow to infinity,
    NaN and the difference between numpy's integer and float element types are outside
    the model. In particular \<^verbatim>\<open>np.vectorize\<close> is elementwise application; that it takes
    the element type of its result from the first element is not modelled.
  \<^item> A numpy column vector is the list of its entries, a matrix the list of its rows.
    Elementwise operations follow the shorter operand; instances are meant to be
    well shaped (all blocks of \<^verbatim>\<open>A\<close> have the shape of \<^verbatim>\<open>A[0]\<close>), numpy's shape errors
    and broadcasting are not modelled.
  \<^item> Python exceptions that the code itself can raise are values of \<open>error\<close>. The block
    oracle is a parameter and is taken to return.
  \<^item> Printing is recorded in the state: one record per diagnostic line, without the
    wall-clock column; the banner of \<^verbatim>\<open>show_log_header\<close> is left out.
  \<^item> Mutation of \<^verbatim>\<open>self\<close> and of the locals of \<^verbatim>\<open>optimize\<close> is explicit state passing.
\<close>

datatype error = IndexError | UnboundLocalError | ValueError

type_synonym vec = "real list"
type_synonym mat = "real list list"

section \<open>The parameter and history store\<close>

record BCDParams =
  kappa :: real
  alpha :: real
  beta :: int
  gamma :: real
  changed :: int
  num_stuck :: int
  eps_num_stuck :: int
  iter :: int
  lb :: real
  lb_arr :: "real list"
  ub_arr :: "real list"
  gap :: real
  dual_method :: string
  primal_heuristic_method :: "string option"
  feasible_provider :: string
  max_number :: int
  norms :: "real list \<times> real list \<times> real list"
  multipliers :: "real list \<times> real list \<times> real list"
  itermax :: int
  linmax :: int

text \<open>
  \<^verbatim>\<open>parse_environ\<close> reads the process environment, here a map from variable names to
  values: \<^verbatim>\<open>os.environ.get('primal', None)\<close> and \<^verbatim>\<open>os.environ.get('dual', 'pdhg_alm')\<close>.
\<close>

definition parse_environ :: "(string \<rightharpoonup> string) \<Rightarrow> BCDParams \<Rightarrow> BCDParams" where
  "parse_environ env self =
     self\<lparr>primal_heuristic_method := env ''primal'',
          dual_method := (case env ''dual'' of None \<Rightarrow> ''pdhg_alm'' | Some v \<Rightarrow> v)\<rparr>"

definition BCDParams_init :: "(string \<rightharpoonup> string) \<Rightarrow> BCDParams" where
  "BCDParams_init env =
     parse_environ env
       \<lparr>kappa = 2 / 10, alpha = 1, beta = 1, gamma = 1 / 10,
        changed = 0, num_stuck = 0, eps_num_stuck = 3, iter = 0,
        lb = 1 / 1000000, lb_arr = [], ub_arr = [], gap = 1,
        dual_method = ''pdhg'', primal_heuristic_method = Some ''jsp'',
        feasible_provider = ''jsp'', max_number = 1,
        norms = ([], [], []), multipliers = ([], [], []),
        itermax = 10000, linmax = 10\<rparr>"

text \<open>
  \<^verbatim>\<open>update_bound(lb)\<close>: the two \<^verbatim>\<open>if\<close> statements run one after the other, then the
  bound is appended to the history.
\<close>

definition update_bound :: "BCDParams \<Rightarrow> real \<Rightarrow> BCDParams" where
  "update_bound self v =
     (let s1 = (if v \<ge> lb self
                then self\<lparr>lb := v, changed := 1, num_stuck := 0\<rparr>
                else self\<lparr>changed := 0, num_stuck := num_stuck self + 1\<rparr>);
          s2 = (if num_stuck s1 \<ge> eps_num_stuck s1
                then s1\<lparr>kappa := kappa s1 * (5 / 10), num_stuck := 0\<rparr>
                else s1)
      in s2\<lparr>lb_arr := lb_arr s2 @ [v]\<rparr>)"

definition update_incumbent :: "BCDParams \<Rightarrow> real \<Rightarrow> BCDParams" where
  "update_incumbent self ub = self\<lparr>ub_arr := ub_arr self @ [ub]\<rparr>"

text \<open>
  Python's \<^verbatim>\<open>min\<close> and \<^verbatim>\<open>max\<close> of a list raise \<^verbatim>\<open>ValueError\<close> on the empty list and
  otherwise scan it from the left, keeping the best element seen.
\<close>

definition py_min :: "real list \<Rightarrow> error + real" where
  "py_min xs = (case xs of [] \<Rightarrow> Inl ValueError | x # ys \<Rightarrow> Inr (foldl min x ys))"

definition py_max :: "real list \<Rightarrow> error + real" where
  "py_max xs = (case xs of [] \<Rightarrow> Inl ValueError | x # ys \<Rightarrow> Inr (foldl max x ys))"

definition update_gap :: "BCDParams \<Rightarrow> error + BCDParams" where
  "update_gap self =
     (case py_min (ub_arr self) of
        Inl e \<Rightarrow> Inl e
      | Inr best_ub \<Rightarrow>
          (case py_max (lb_arr self) of
             Inl e \<Rightarrow> Inl e
           | Inr best_lb \<Rightarrow>
               Inr (self\<lparr>gap := (best_ub - best_lb) / (\<bar>best_lb\<bar> + 1 / 1000)\<rparr>)))"

definition reset :: "(string \<rightharpoonup> string) \<Rightarrow> BCDParams \<Rightarrow> BCDParams" where
  "reset env self =
     parse_environ env
       (self\<lparr>num_stuck := 0, eps_num_stuck := 3, iter := 0,
             lb := 1 / 1000000, lb_arr := [], ub_arr := [], gap := 1,
             dual_method := ''pdhg'', primal_heuristic_method := Some ''jsp'',
             feasible_provider := ''jsp'', max_number := 1,
             norms := ([], [], []), multipliers := ([], [], [])\<rparr>)"

section \<open>Vectors and matrices\<close>

definition vadd :: "vec \<Rightarrow> vec \<Rightarrow> vec" where
  "vadd u v = map2 (+) u v"

definition vsub :: "vec \<Rightarrow> vec \<Rightarrow> vec" where
  "vsub u v = map2 (-) u v"

definition smul :: "real \<Rightarrow> vec \<Rightarrow> vec" where
  "smul a v = map (\<lambda>x. a * x) v"

definition sdiv :: "vec \<Rightarrow> real \<Rightarrow> vec" where
  "sdiv v a = map (\<lambda>x. x / a) v"

definition dot :: "vec \<Rightarrow> vec \<Rightarrow> real" where
  "dot u v = sum_list (map2 (*) u v)"

text \<open>\<^verbatim>\<open>M @ x\<close> for a matrix given by its rows.\<close>

definition matvec :: "mat \<Rightarrow> vec \<Rightarrow> vec" where
  "matvec M x = map (\<lambda>row. dot row x) M"

definition ncols :: "mat \<Rightarrow> nat" where
  "ncols M = (case M of [] \<Rightarrow> 0 | row # _ \<Rightarrow> length row)"

text \<open>\<^verbatim>\<open>M.T @ y\<close>: entry \<open>j\<close> pairs column \<open>j\<close> of \<open>M\<close> with \<open>y\<close>.\<close>

definition matTvec :: "mat \<Rightarrow> vec \<Rightarrow> vec" where
  "matTvec M y = map (\<lambda>j. dot (map (\<lambda>row. row ! j) M) y) [0..<ncols M]"

text \<open>\<^verbatim>\<open>_nonnegative\<close> is \<^verbatim>\<open>max(x, 0)\<close>, vectorised.\<close>

definition nonnegative :: "vec \<Rightarrow> vec" where
  "nonnegative v = map (\<lambda>x. max x 0) v"

text \<open>\<^verbatim>\<open>np.linalg.norm\<close> of a column vector: the Euclidean norm.\<close>

definition linalg_norm :: "vec \<Rightarrow> real" where
  "linalg_norm v = sqrt (sum_list (map (\<lambda>x. x * x) v))"

text \<open>
  \<^verbatim>\<open>sum(d.values())\<close> over a dictionary of vectors, in insertion order. The dictionaries
  of \<^verbatim>\<open>optimize\<close> have one entry per block and there is at least one block.
\<close>

definition vsum :: "vec list \<Rightarrow> vec" where
  "vsum vs = (case vs of [] \<Rightarrow> [] | v # ws \<Rightarrow> foldl vadd v ws)"

section \<open>The driver \<^verbatim>\<open>optimize\<close>\<close>

text \<open>
  Of the dictionary \<^verbatim>\<open>block_data\<close> the driver uses the entries \<^verbatim>\<open>'A'\<close> (one linking
  matrix per block), \<^verbatim>\<open>'b'\<close> (the linking right-hand side) and \<^verbatim>\<open>'c'\<close> (one cost row
  per block); the other entries are read and never used.
\<close>

record block_data =
  block_A :: "mat list"
  block_b :: vec
  block_c :: "vec list"

text \<open>One printed diagnostic line (without the wall-clock column).\<close>

record log_line =
  log_k :: nat
  log_cx :: real
  log_lobj :: real
  log_eps_pfeas :: real
  log_eps_fp :: real
  log_rho :: real
  log_tau :: real
  log_iter :: nat

text \<open>
  The locals of \<^verbatim>\<open>optimize\<close> that change while it runs, the objects it mutates
  (\<^verbatim>\<open>bcdpar\<close>, and \<^verbatim>\<open>route\<close> through its solver) and the lines printed so far. The
  dictionaries \<^verbatim>\<open>_vAx\<close>, \<^verbatim>\<open>_vcx\<close> and \<^verbatim>\<open>_eps_fix_point\<close> have the keys
  \<open>0, 1, \<dots>\<close> in order and are lists. The inner loop variable \<^verbatim>\<open>it\<close> is unbound
  (\<open>None\<close>) until the inner loop has started once.
\<close>

record 'r bcd_state =
  rho :: real
  tau :: real
  lbd :: vec
  xk :: "vec list"
  vAx :: "vec list"
  vcx :: "real list"
  eps_fix_point :: "real list"
  it :: "nat option"
  route :: 'r
  bcdpar :: BCDParams
  printed :: "log_line list"

definition Anorm :: real where
  "Anorm = 20"

definition sigma :: real where
  "sigma = 2"

text \<open>
  Lines 150 to 178. \<^verbatim>\<open>A[0]\<close> raises \<^verbatim>\<open>IndexError\<close> when there is no block, and so does
  \<^verbatim>\<open>xk[idx]\<close> in the comprehension over \<^verbatim>\<open>enumerate(c)\<close> when \<^verbatim>\<open>c\<close> is longer than
  \<^verbatim>\<open>A\<close>.
\<close>

definition init_state :: "BCDParams \<Rightarrow> block_data \<Rightarrow> 'r \<Rightarrow> error + 'r bcd_state" where
  "init_state par D r =
     (case block_A D of
        [] \<Rightarrow> Inl IndexError
      | A1 # _ \<Rightarrow>
          (let m = length A1;
               n = ncols A1;
               rho0 = 1 / 100;
               x0 = map (\<lambda>_. replicate n 1) (block_A D)
           in if length (block_c D) > length x0 then Inl IndexError
              else Inr \<lparr>rho = rho0,
                        tau = 1 / (Anorm ^ 2 * rho0),
                        lbd = smul rho0 (replicate m 1),
                        xk = x0,
                        vAx = map (\<lambda>(idx, M). matvec M (x0 ! idx)) (enumerate 0 (block_A D)),
                        vcx = map (\<lambda>(idx, cv). dot cv (x0 ! idx)) (enumerate 0 (block_c D)),
                        eps_fix_point = map (\<lambda>_. 0) (block_A D),
                        it = None,
                        route = r,
                        bcdpar = par,
                        printed = []\<rparr>))"

text \<open>The linearised cost \<^verbatim>\<open>_c\<close> of block \<open>idx\<close> (lines 184 to 188).\<close>

definition gradient :: "block_data \<Rightarrow> 'r bcd_state \<Rightarrow> nat \<Rightarrow> vec" where
  "gradient D st idx =
     (let Ak = block_A D ! idx;
          Ax = vsum (vAx st)
      in vadd (vadd (block_c D ! idx)
                    (smul (rho st)
                       (matTvec Ak
                          (nonnegative (vadd (vsub Ax (block_b D)) (sdiv (lbd st) (rho st)))))))
              (sdiv (map (\<lambda>x. 5 / 10 - x) (xk st ! idx)) (tau st)))"

text \<open>
  The body of the loop over \<^verbatim>\<open>idx\<close> (lines 184 to 203). The block oracle
  \<^verbatim>\<open>route.solve_primal_by_mip\<close> is a parameter: it maps the state of \<^verbatim>\<open>route\<close> and a cost
  vector to an assignment and the new state of \<^verbatim>\<open>route\<close>. The list accesses \<^verbatim>\<open>A[idx]\<close>,
  \<^verbatim>\<open>c[idx]\<close> and \<^verbatim>\<open>xk[idx]\<close> raise \<^verbatim>\<open>IndexError\<close> out of range.
\<close>

definition block_update ::
  "('r \<Rightarrow> vec \<Rightarrow> vec \<times> 'r) \<Rightarrow> block_data \<Rightarrow> nat \<Rightarrow> 'r bcd_state \<Rightarrow> error + 'r bcd_state" where
  "block_update solve_primal_by_mip D idx st =
     (if idx < length (block_A D) \<and> idx < length (block_c D) \<and> idx < length (xk st)
      then
        (let Ak = block_A D ! idx;
             g = gradient D st idx;
             (x, r) = solve_primal_by_mip (route st) g;
             v_sp = dot g x;
             x' = (if v_sp > 0 then replicate (length g) 0 else x)
         in Inr (st\<lparr>eps_fix_point := (eps_fix_point st)[idx := linalg_norm (vsub (xk st ! idx) x')],
                    xk := (xk st)[idx := x'],
                    vAx := (vAx st)[idx := matvec Ak x'],
                    vcx := (vcx st)[idx := dot (block_c D ! idx) x'],
                    route := r\<rparr>))
      else Inl IndexError)"

text \<open>\<^verbatim>\<open>for idx in range(nblock)\<close>: one pass over the blocks, in the order of the list.\<close>

fun block_pass ::
  "('r \<Rightarrow> vec \<Rightarrow> vec \<times> 'r) \<Rightarrow> block_data \<Rightarrow> nat list \<Rightarrow> 'r bcd_state \<Rightarrow> error + 'r bcd_state" where
  "block_pass solve_primal_by_mip D [] st = Inr st"
| "block_pass solve_primal_by_mip D (idx # idxs) st =
     (case block_update solve_primal_by_mip D idx st of
        Inl e \<Rightarrow> Inl e
      | Inr st' \<Rightarrow> block_pass solve_primal_by_mip D idxs st')"

definition eps_fp :: "'r bcd_state \<Rightarrow> real" where
  "eps_fp st = sum_list (eps_fix_point st)"

text \<open>
  \<^verbatim>\<open>for it in range(bcdpar.linmax)\<close> (lines 180 to 207): \<open>n\<close> passes are left and the
  next one has index \<open>i\<close>.
\<close>

fun inner_loop ::
  "('r \<Rightarrow> vec \<Rightarrow> vec \<times> 'r) \<Rightarrow> block_data \<Rightarrow> nat \<Rightarrow> nat \<Rightarrow> 'r bcd_state \<Rightarrow> error + 'r bcd_state" where
  "inner_loop solve_primal_by_mip D 0 i st = Inr st"
| "inner_loop solve_primal_by_mip D (Suc n) i st =
     (case block_pass solve_primal_by_mip D [0..<length (block_A D)] (st\<lparr>it := Some i\<rparr>) of
        Inl e \<Rightarrow> Inl e
      | Inr st' \<Rightarrow>
          if eps_fp st' < 1 / 10000 then Inr st'
          else inner_loop solve_primal_by_mip D n (Suc i) st')"

text \<open>The diagnostics of lines 209 to 215.\<close>

definition eps_pfeas :: "block_data \<Rightarrow> 'r bcd_state \<Rightarrow> real" where
  "eps_pfeas D st = linalg_norm (nonnegative (vsub (vsum (vAx st)) (block_b D)))"

definition lobj :: "block_data \<Rightarrow> 'r bcd_state \<Rightarrow> real" where
  "lobj D st =
     sum_list (vcx st)
     + sum_list (map (\<lambda>x. x ^ 2)
         (nonnegative (vadd (vsub (vsum (vAx st)) (block_b D)) (sdiv (lbd st) (rho st)))))
       * rho st / 2
     - linalg_norm (lbd st) ^ 2 / 2 / rho st"

text \<open>
  The log line of lines 216 to 219. It formats \<^verbatim>\<open>it + 1\<close>, which raises
  \<^verbatim>\<open>UnboundLocalError\<close> when the inner loop has never bound \<^verbatim>\<open>it\<close>.
\<close>

definition print_log_line :: "block_data \<Rightarrow> nat \<Rightarrow> 'r bcd_state \<Rightarrow> error + 'r bcd_state" where
  "print_log_line D k st =
     (case it st of
        None \<Rightarrow> Inl UnboundLocalError
      | Some i \<Rightarrow>
          Inr (st\<lparr>printed := printed st @
                 [\<lparr>log_k = k, log_cx = sum_list (vcx st), log_lobj = lobj D st,
                   log_eps_pfeas = eps_pfeas D st, log_eps_fp = eps_fp st,
                   log_rho = rho st, log_tau = tau st, log_iter = i + 1\<rparr>]\<rparr>))"

text \<open>Lines 180 to 219 of one outer iteration: the inner loop, then the log line.\<close>

definition outer_body ::
  "('r \<Rightarrow> vec \<Rightarrow> vec \<times> 'r) \<Rightarrow> block_data \<Rightarrow> nat \<Rightarrow> 'r bcd_state \<Rightarrow> error + 'r bcd_state" where
  "outer_body solve_primal_by_mip D k st =
     (case inner_loop solve_primal_by_mip D (nat (linmax (bcdpar st))) 0 st of
        Inl e \<Rightarrow> Inl e
      | Inr st' \<Rightarrow> print_log_line D k st')"

text \<open>The test of line 220.\<close>

definition converged :: "block_data \<Rightarrow> 'r bcd_state \<Rightarrow> bool" where
  "converged D st \<longleftrightarrow> eps_pfeas D st = 0 \<and> eps_fp st < 1 / 10000"

text \<open>Lines 223 to 226: penalty growth, multiplier update, outer counter.\<close>

definition grow :: "block_data \<Rightarrow> 'r bcd_state \<Rightarrow> 'r bcd_state" where
  "grow D st =
     (let rho' = rho st * sigma
      in st\<lparr>rho := rho',
            lbd := nonnegative
                     (vadd (map (\<lambda>x. x * rho') (vsub (vsum (vAx st)) (block_b D))) (lbd st)),
            bcdpar := (bcdpar st)\<lparr>iter := iter (bcdpar st) + 1\<rparr>\<rparr>)"

text \<open>How a \<^verbatim>\<open>for\<close> loop ended: by \<^verbatim>\<open>break\<close>, or because its range was used up.\<close>

datatype loop_exit = Break | Exhausted

text \<open>
  \<^verbatim>\<open>for k in range(bcdpar.itermax)\<close> (lines 179 to 226): \<open>n\<close> iterations are left and
  the next one has index \<open>k\<close>.
\<close>

fun outer_loop ::
  "('r \<Rightarrow> vec \<Rightarrow> vec \<times> 'r) \<Rightarrow> block_data \<Rightarrow> nat \<Rightarrow> nat \<Rightarrow> 'r bcd_state
     \<Rightarrow> error + (loop_exit \<times> 'r bcd_state)" where
  "outer_loop solve_primal_by_mip D 0 k st = Inr (Exhausted, st)"
| "outer_loop solve_primal_by_mip D (Suc n) k st =
     (case outer_body solve_primal_by_mip D k st of
        Inl e \<Rightarrow> Inl e
      | Inr st' \<Rightarrow>
          if converged D st' then Inr (Break, st')
          else outer_loop solve_primal_by_mip D n (Suc k) (grow D st'))"

text \<open>
  The whole run, with the way the outer loop ended and the final state, and the value
  that \<^verbatim>\<open>optimize\<close> returns from it: \<^verbatim>\<open>return xk\<close>.
\<close>

definition optimize_run ::
  "('r \<Rightarrow> vec \<Rightarrow> vec \<times> 'r) \<Rightarrow> BCDParams \<Rightarrow> block_data \<Rightarrow> 'r
     \<Rightarrow> error + (loop_exit \<times> 'r bcd_state)" where
  "optimize_run solve_primal_by_mip par D r =
     (case init_state par D r of
        Inl e \<Rightarrow> Inl e
      | Inr st \<Rightarrow> outer_loop solve_primal_by_mip D (nat (itermax par)) 0 st)"

definition optimize ::
  "('r \<Rightarrow> vec \<Rightarrow> vec \<times> 'r) \<Rightarrow> BCDParams \<Rightarrow> block_data \<Rightarrow> 'r \<Rightarrow> error + vec list" where
  "optimize solve_primal_by_mip par D r =
     (case optimize_run solve_primal_by_mip par D r of
        Inl e \<Rightarrow> Inl e
      | Inr (ex, st) \<Rightarrow> Inr (xk st))"

section \<open>Reference runs for the statements\<close>


section \<open>Toy instances\<close>

text \<open>
  One block with one variable, one linking row \<open>x \<le> bound\<close> and the given cost. The
  oracles have no constraints of their own and no state: \<open>toy_oracle\<close> selects the
  entries of negative cost (the minimiser over all 0-1 vectors), \<open>stubborn_oracle\<close>
  selects everything whatever the cost.
\<close>

definition toy_oracle :: "unit \<Rightarrow> vec \<Rightarrow> vec \<times> unit" where
  "toy_oracle r g = (map (\<lambda>x. if x < 0 then 1 else 0) g, r)"

definition stubborn_oracle :: "unit \<Rightarrow> vec \<Rightarrow> vec \<times> unit" where
  "stubborn_oracle r g = (replicate (length g) 1, r)"

definition toy_block :: "real \<Rightarrow> real \<Rightarrow> block_data" where
  "toy_block bound cost = \<lparr>block_A = [[[1]]], block_b = [bound], block_c = [[cost]]\<rparr>"

definition toy_par :: "int \<Rightarrow> int \<Rightarrow> BCDParams" where
  "toy_par n l = (BCDParams_init Map.empty)\<lparr>itermax := n, linmax := l\<rparr>"

text \<open>The state in which \<^verbatim>\<open>optimize\<close> enters its outer loop on a toy instance.\<close>

definition toy_start :: "BCDParams \<Rightarrow> real \<Rightarrow> unit bcd_state" where
  "toy_start par cost =
     \<lparr>rho = 1 / 100, tau = 1 / 4, lbd = [1 / 100], xk = [[1]], vAx = [[1]], vcx = [cost],
      eps_fix_point = [0], it = None, route = (), bcdpar = par, printed = []\<rparr>"

section \<open>Properties of the store\<close>

lemma foldl_min_Min: "foldl min x ys = Min (set (x # ys))"
proof (induction ys arbitrary: x)
  case Nil
  show ?case by simp
next
  case (Cons y ys)
  have "foldl min x (y # ys) = Min (set (min x y # ys))"
    using Cons.IH by simp
  also have "\<dots> = Min (set (x # y # ys))"
    by (cases ys) (simp_all add: min.assoc)
  finally show ?case .
qed

lemma foldl_max_Max: "foldl max x ys = Max (set (x # ys))"
proof (induction ys arbitrary: x)
  case Nil
  show ?case by simp
next
  case (Cons y ys)
  have "foldl max x (y # ys) = Max (set (max x y # ys))"
    using Cons.IH by simp
  also have "\<dots> = Max (set (x # y # ys))"
    by (cases ys) (simp_all add: max.assoc)
  finally show ?case .
qed

lemma py_min_nonempty: "xs \<noteq> [] \<Longrightarrow> py_min xs = Inr (Min (set xs))"
  unfolding py_min_def using foldl_min_Min by (cases xs) simp_all

lemma py_max_nonempty: "xs \<noteq> [] \<Longrightarrow> py_max xs = Inr (Max (set xs))"
  unfolding py_max_def using foldl_max_Max by (cases xs) simp_all

section \<open>Properties of the block update and of the inner loop\<close>

lemmas vec_defs = vadd_def vsub_def smul_def sdiv_def dot_def matvec_def ncols_def matTvec_def
  nonnegative_def linalg_norm_def vsum_def

lemma dot_zeros: "dot g (replicate n 0) = 0"
proof (induction g arbitrary: n)
  case Nil
  show ?case by (simp add: dot_def)
next
  case (Cons x g)
  show ?case
  proof (cases n)
    case 0
    then show ?thesis by (simp add: dot_def)
  next
    case (Suc m)
    with Cons.IH [of m] show ?thesis by (simp add: dot_def)
  qed
qed

lemma block_update_Inr:
  assumes "idx < length (block_A D)" and "idx < length (block_c D)" and "idx < length (xk st)"
  shows "\<exists>st'. block_update solve D idx st = Inr st'"
  using assms by (simp add: block_update_def Let_def split: prod.splits)

lemma block_update_frame:
  assumes "block_update solve D idx st = Inr st'"
  shows "rho st' = rho st \<and> tau st' = tau st \<and> lbd st' = lbd st \<and> it st' = it st
         \<and> bcdpar st' = bcdpar st \<and> printed st' = printed st
         \<and> length (xk st') = length (xk st)"
  using assms by (auto simp: block_update_def Let_def split: if_splits prod.splits)

lemma block_update_xk:
  assumes "block_update solve D idx st = Inr st'"
  shows "xk st' = (xk st)[idx := (if 0 < dot (gradient D st idx) (fst (solve (route st) (gradient D st idx)))
                                  then replicate (length (gradient D st idx)) 0
                                  else fst (solve (route st) (gradient D st idx)))]
         \<and> idx < length (xk st)"
  using assms by (auto simp: block_update_def Let_def split: if_splits prod.splits)


lemma block_pass_frame:
  assumes "block_pass solve D idxs st = Inr st'"
  shows "rho st' = rho st \<and> tau st' = tau st \<and> lbd st' = lbd st \<and> it st' = it st
         \<and> bcdpar st' = bcdpar st \<and> printed st' = printed st
         \<and> length (xk st') = length (xk st)"
  using assms
proof (induction idxs arbitrary: st)
  case Nil
  then show ?case by simp
next
  case (Cons idx idxs)
  then obtain s where s: "block_update solve D idx st = Inr s"
    and rest: "block_pass solve D idxs s = Inr st'"
    by (auto split: sum.splits)
  from Cons.IH [OF rest] block_update_frame [OF s] show ?case by simp
qed


lemma inner_loop_frame:
  assumes "inner_loop solve D n i st = Inr st'"
  shows "rho st' = rho st \<and> tau st' = tau st \<and> lbd st' = lbd st
         \<and> bcdpar st' = bcdpar st \<and> printed st' = printed st
         \<and> length (xk st') = length (xk st)"
  using assms
proof (induction n arbitrary: i st)
  case 0
  then show ?case by simp
next
  case (Suc n)
  then obtain s where s: "block_pass solve D [0..<length (block_A D)] (st\<lparr>it := Some i\<rparr>) = Inr s"
    by (auto split: sum.splits)
  note fr = block_pass_frame [OF s]
  show ?case
  proof (cases "eps_fp s < 1 / 10000")
    case True
    with Suc.prems s have "st' = s" by simp
    with fr show ?thesis by simp
  next
    case False
    with Suc.prems s have "inner_loop solve D n (Suc i) s = Inr st'" by simp
    from Suc.IH [OF this] fr show ?thesis by simp
  qed
qed



section \<open>Claims about the store\<close>

text \<open>
  C7. One call of \<^verbatim>\<open>update_bound(lb)\<close> always appends \<open>lb\<close> to \<^verbatim>\<open>lb_arr\<close>. If \<open>lb\<close> is
  at least the best bound so far, the best bound becomes \<open>lb\<close>, \<^verbatim>\<open>changed\<close> is 1 and
  \<^verbatim>\<open>num_stuck\<close> is 0. Otherwise the best bound stays, \<^verbatim>\<open>changed\<close> is 0 and \<^verbatim>\<open>num_stuck\<close>
  is incremented; when the incremented counter reaches the threshold, \<^verbatim>\<open>kappa\<close> is halved
  and the counter is back at 0. With the threshold 3 and a counter at 0, three
  non-improving calls in a row halve \<^verbatim>\<open>kappa\<close> exactly once and leave the counter at 0.
\<close>

theorem update_bound_spec:
  "lb_arr (update_bound self v) = lb_arr self @ [v]
   \<and> (lb self \<le> v \<longrightarrow>
        lb (update_bound self v) = v \<and> changed (update_bound self v) = 1
        \<and> num_stuck (update_bound self v) = 0
        \<and> (0 < eps_num_stuck self \<longrightarrow> kappa (update_bound self v) = kappa self))
   \<and> (v < lb self \<longrightarrow>
        lb (update_bound self v) = lb self \<and> changed (update_bound self v) = 0
        \<and> (num_stuck self + 1 < eps_num_stuck self \<longrightarrow>
              num_stuck (update_bound self v) = num_stuck self + 1
              \<and> kappa (update_bound self v) = kappa self)
        \<and> (eps_num_stuck self \<le> num_stuck self + 1 \<longrightarrow>
              num_stuck (update_bound self v) = 0
              \<and> kappa (update_bound self v) = kappa self / 2))
   \<and> (eps_num_stuck self = 3 \<and> num_stuck self = 0 \<and> v < lb self \<and> v2 < lb self \<and> v3 < lb self \<longrightarrow>
        kappa (update_bound (update_bound (update_bound self v) v2) v3) = kappa self / 2
        \<and> num_stuck (update_bound (update_bound (update_bound self v) v2) v3) = 0
        \<and> eps_num_stuck (update_bound (update_bound (update_bound self v) v2) v3) = 3
        \<and> lb_arr (update_bound (update_bound (update_bound self v) v2) v3) = lb_arr self @ [v, v2, v3])"
  by (simp add: update_bound_def Let_def)

theorem update_bound_spec_witness:
  "kappa (update_bound (update_bound (update_bound (BCDParams_init Map.empty) 0) 0) 0) = 1 / 10
   \<and> num_stuck (update_bound (update_bound (update_bound (BCDParams_init Map.empty) 0) 0) 0) = 0
   \<and> num_stuck (update_bound (BCDParams_init Map.empty) 0) = 1
   \<and> kappa (update_bound (BCDParams_init Map.empty) 0) = 2 / 10
   \<and> lb (update_bound (BCDParams_init Map.empty) 5) = 5
   \<and> changed (update_bound (BCDParams_init Map.empty) 5) = 1
   \<and> kappa (update_bound ((BCDParams_init Map.empty)\<lparr>num_stuck := 2\<rparr>) 0) = 1 / 10"
  using update_bound_spec [of "BCDParams_init Map.empty" 0 0 0]
    update_bound_spec [of "BCDParams_init Map.empty" 5 0 0]
    update_bound_spec [of "(BCDParams_init Map.empty)\<lparr>num_stuck := 2\<rparr>" 0 0 0]
  by (simp add: BCDParams_init_def parse_environ_def)

text \<open>
  C8. With both histories non-empty, \<^verbatim>\<open>update_gap\<close> raises nothing and sets \<^verbatim>\<open>gap\<close> to
  (least upper bound recorded - greatest lower bound recorded) divided by
  (absolute value of the greatest lower bound + 0.001). For the histories
  \<open>[1, 2, 1.5]\<close> and \<open>[10, 8]\<close> this is \<open>(8 - 2) / (2 + 0.001)\<close>.
\<close>

theorem update_gap_formula:
  assumes "ub_arr self \<noteq> []" and "lb_arr self \<noteq> []"
  shows "update_gap self =
           Inr (self\<lparr>gap := (Min (set (ub_arr self)) - Max (set (lb_arr self)))
                             / (\<bar>Max (set (lb_arr self))\<bar> + 1 / 1000)\<rparr>)"
  using assms by (simp add: update_gap_def py_min_nonempty py_max_nonempty)

theorem update_gap_formula_witness:
  "update_gap ((BCDParams_init Map.empty)\<lparr>lb_arr := [1, 2, 3 / 2], ub_arr := [10, 8]\<rparr>) =
     Inr ((BCDParams_init Map.empty)
            \<lparr>lb_arr := [1, 2, 3 / 2], ub_arr := [10, 8], gap := (8 - 2) / (2 + 1 / 1000)\<rparr>)"
  using update_gap_formula [of "(BCDParams_init Map.empty)\<lparr>lb_arr := [1, 2, 3 / 2], ub_arr := [10, 8]\<rparr>"]
  by simp

text \<open>
  C10. \<^verbatim>\<open>reset\<close> puts every field back to the value \<^verbatim>\<open>__init__\<close> gives it, the mode
  selectors read from the environment again, except \<^verbatim>\<open>kappa\<close>, \<^verbatim>\<open>alpha\<close>, \<^verbatim>\<open>beta\<close>,
  \<^verbatim>\<open>gamma\<close>, \<^verbatim>\<open>changed\<close>, \<^verbatim>\<open>itermax\<close> and \<^verbatim>\<open>linmax\<close>, which it leaves as they are. So
  the counter \<^verbatim>\<open>changed\<close> is not restored: after one improving \<^verbatim>\<open>update_bound\<close> on a
  fresh store it is 1, and it is still 1 after \<^verbatim>\<open>reset\<close>, while a fresh store has 0.
\<close>

theorem reset_keeps_changed:
  "reset env self =
     (BCDParams_init env)\<lparr>kappa := kappa self, alpha := alpha self, beta := beta self,
        gamma := gamma self, changed := changed self, itermax := itermax self,
        linmax := linmax self\<rparr>
   \<and> changed (BCDParams_init env) = 0
   \<and> changed (reset env (update_bound (BCDParams_init env) 1)) = 1"
  by (simp add: reset_def BCDParams_init_def parse_environ_def update_bound_def Let_def)

section \<open>Claims about the driver\<close>

text \<open>
  C3. A block update on an existing block raises nothing. If the oracle's candidate has
  positive linearised cost \<open>g \<cdot> x_new > 0\<close>, the stored iterate of the block becomes the
  all-zero vector of the shape of \<open>g\<close>; otherwise it becomes the candidate. In both
  cases the linearised cost \<open>g \<cdot> x\<close> of the stored iterate is at most 0, where \<open>g\<close> is
  the cost vector computed in this update.
\<close>

theorem block_update_descent:
  assumes "idx < length (block_A D)" and "idx < length (block_c D)" and "idx < length (xk st)"
  shows "\<exists>st'. block_update solve D idx st = Inr st'
           \<and> (0 < dot (gradient D st idx) (fst (solve (route st) (gradient D st idx)))
                \<longrightarrow> xk st' ! idx = replicate (length (gradient D st idx)) 0)
           \<and> (dot (gradient D st idx) (fst (solve (route st) (gradient D st idx))) \<le> 0
                \<longrightarrow> xk st' ! idx = fst (solve (route st) (gradient D st idx)))
           \<and> dot (gradient D st idx) (xk st' ! idx) \<le> 0"
proof -
  from block_update_Inr [OF assms] obtain st' where st': "block_update solve D idx st = Inr st'"
    by blast
  let ?g = "gradient D st idx"
  let ?x = "fst (solve (route st) ?g)"
  from block_update_xk [OF st'] assms(3)
  have sel: "xk st' ! idx = (if 0 < dot ?g ?x then replicate (length ?g) 0 else ?x)"
    by simp
  have "dot ?g (xk st' ! idx) \<le> 0"
    by (simp add: sel dot_zeros)
  with st' sel show ?thesis
    by auto
qed

theorem block_update_descent_witness:
  "block_update toy_oracle (toy_block 1 (- 1)) 0 (toy_start (toy_par 1 1) (- 1)) = Inr (toy_start (toy_par 1 1) (- 1))
   \<and> dot (gradient (toy_block 1 (- 1)) (toy_start (toy_par 1 1) (- 1)) 0) [1] = - 299 / 100
   \<and> xk (toy_start (toy_par 1 1) (- 1)) ! 0 = [1]
   \<and> (\<exists>st'. block_update stubborn_oracle (toy_block 1 5) 0 (toy_start (toy_par 1 1) 5) = Inr st'
          \<and> dot (gradient (toy_block 1 5) (toy_start (toy_par 1 1) 5) 0) [1] = 301 / 100
          \<and> xk st' ! 0 = [0])"
  using block_update_descent [of 0 "toy_block 1 (- 1)" "toy_start (toy_par 1 1) (- 1)" toy_oracle]
    block_update_descent [of 0 "toy_block 1 5" "toy_start (toy_par 1 1) 5" stubborn_oracle]
  by (simp add: block_update_def gradient_def toy_oracle_def stubborn_oracle_def toy_block_def
      toy_start_def vec_defs Let_def)

subsection \<open>The inner loop\<close>



subsection \<open>The outer loop\<close>

lemma print_log_line_Some:
  assumes "it st = Some i"
  shows "print_log_line D k st =
           Inr (st\<lparr>printed := printed st @
                  [\<lparr>log_k = k, log_cx = sum_list (vcx st), log_lobj = lobj D st,
                    log_eps_pfeas = eps_pfeas D st, log_eps_fp = eps_fp st,
                    log_rho = rho st, log_tau = tau st, log_iter = i + 1\<rparr>]\<rparr>)"
  using assms by (simp add: print_log_line_def)

lemma print_log_line_frame:
  assumes "print_log_line D k st = Inr st'"
  shows "\<exists>l. st' = st\<lparr>printed := printed st @ [l]\<rparr>
           \<and> log_k l = k \<and> log_rho l = rho st \<and> log_tau l = tau st"
proof (cases "it st")
  case None
  with assms show ?thesis by (simp add: print_log_line_def)
next
  case (Some i)
  let ?l = "\<lparr>log_k = k, log_cx = sum_list (vcx st), log_lobj = lobj D st,
             log_eps_pfeas = eps_pfeas D st, log_eps_fp = eps_fp st,
             log_rho = rho st, log_tau = tau st, log_iter = i + 1\<rparr>"
  from assms print_log_line_Some [OF Some, of D k]
  have "st' = st\<lparr>printed := printed st @ [?l]\<rparr>" by simp
  then show ?thesis by (intro exI [of _ ?l]) simp
qed

lemma outer_body_frame:
  assumes "outer_body solve D k st = Inr st'"
  shows "rho st' = rho st \<and> tau st' = tau st \<and> lbd st' = lbd st \<and> bcdpar st' = bcdpar st
         \<and> length (xk st') = length (xk st)
         \<and> (\<exists>l. printed st' = printed st @ [l]
                \<and> log_k l = k \<and> log_rho l = rho st \<and> log_tau l = tau st)"
proof -
  from assms obtain s where s: "inner_loop solve D (nat (linmax (bcdpar st))) 0 st = Inr s"
    and p: "print_log_line D k s = Inr st'"
    by (auto simp: outer_body_def split: sum.splits)
  from print_log_line_frame [OF p] obtain l
    where l: "st' = s\<lparr>printed := printed s @ [l]\<rparr>" "log_k l = k" "log_rho l = rho s"
      "log_tau l = tau s"
    by blast
  with inner_loop_frame [OF s] show ?thesis by simp
qed


lemma grow_fields:
  "rho (grow D st) = rho st * sigma" "tau (grow D st) = tau st" "xk (grow D st) = xk st"
  "printed (grow D st) = printed st"
  "bcdpar (grow D st) = (bcdpar st)\<lparr>iter := iter (bcdpar st) + 1\<rparr>"
  by (simp_all add: grow_def Let_def)




lemma outer_loop_invariant:
  assumes "outer_loop solve D n k st = Inr (ex, st')"
    and "I k st"
    and body: "\<And>k s t. I k s \<Longrightarrow> outer_body solve D k s = Inr t \<Longrightarrow> J k t"
    and step: "\<And>k t. J k t \<Longrightarrow> \<not> converged D t \<Longrightarrow> I (Suc k) (grow D t)"
  shows "(ex = Exhausted \<longrightarrow> I (k + n) st')
         \<and> (ex = Break \<longrightarrow> (\<exists>j<n. J (k + j) st' \<and> converged D st'))"
  using assms(1,2)
proof (induction n arbitrary: k st)
  case 0
  then show ?case by simp
next
  case (Suc n)
  from Suc.prems(1) obtain t where t: "outer_body solve D k st = Inr t"
    by (auto split: sum.splits)
  from body [OF Suc.prems(2) t] have J: "J k t" .
  show ?case
  proof (cases "converged D t")
    case True
    with Suc.prems(1) t have "ex = Break" "st' = t" by simp_all
    with J True show ?thesis by auto
  next
    case False
    with Suc.prems(1) t have run: "outer_loop solve D n (Suc k) (grow D t) = Inr (ex, st')"
      by simp
    from Suc.IH [OF run step [OF J False]]
    have "(ex = Exhausted \<longrightarrow> I (Suc k + n) st')
          \<and> (ex = Break \<longrightarrow> (\<exists>j<n. J (Suc k + j) st' \<and> converged D st'))" .
    then show ?thesis
      by (cases ex) (auto intro: exI [of _ "Suc j" for j])
  qed
qed




lemma init_state_fields:
  assumes "init_state par D r = Inr st0"
  shows "rho st0 = 1 / 100" "tau st0 = 1 / (Anorm ^ 2 * (1 / 100))"
    "\<forall>x \<in> set (lbd st0). 0 \<le> x" "length (xk st0) = length (block_A D)"
    "bcdpar st0 = par" "printed st0 = []" "\<forall>x \<in> set (xk st0). set x \<subseteq> {0, 1}"
  using assms
  by (cases "block_A D"; auto simp: init_state_def Let_def smul_def split: if_splits)+






subsection \<open>Runs of the toy instances, multiplier and penalty\<close>

lemmas run_defs = optimize_run_def optimize_def init_state_def outer_body_def print_log_line_def
  converged_def eps_pfeas_def eps_fp_def lobj_def grow_def sigma_def Anorm_def
  block_update_def gradient_def Let_def enumerate_eq_zip

lemmas toy_defs = toy_oracle_def stubborn_oracle_def toy_block_def toy_par_def toy_start_def
  BCDParams_init_def parse_environ_def

lemma toy_init: "init_state par (toy_block bound cost) () = Inr (toy_start par cost)"
  by (simp add: init_state_def toy_block_def toy_start_def vec_defs Anorm_def Let_def
      enumerate_eq_zip)








lemma outer_loop_tau:
  assumes "outer_loop (solve :: 'r \<Rightarrow> vec \<Rightarrow> vec \<times> 'r) D n k st = Inr (ex, st')"
    and "tau st = T" and "rho st = R * sigma ^ k"
    and "\<forall>l \<in> set (printed st). log_tau l = T \<and> log_rho l = R * sigma ^ log_k l"
  shows "tau st' = T
         \<and> (\<forall>l \<in> set (printed st'). log_tau l = T \<and> log_rho l = R * sigma ^ log_k l)
         \<and> (ex = Exhausted \<longrightarrow> rho st' = R * sigma ^ (k + n))"
proof -
  let ?I = "\<lambda>k (s :: 'r bcd_state). tau s = T \<and> rho s = R * sigma ^ k
              \<and> (\<forall>l \<in> set (printed s). log_tau l = T \<and> log_rho l = R * sigma ^ log_k l)"
  have "(ex = Exhausted \<longrightarrow> ?I (k + n) st')
        \<and> (ex = Break \<longrightarrow> (\<exists>j<n. ?I (k + j) st' \<and> converged D st'))"
  proof (rule outer_loop_invariant [OF assms(1), where I = ?I and J = ?I])
    show "?I k st" using assms(2-4) by simp
  next
    fix k and s t :: "'r bcd_state"
    assume "?I k s" and "outer_body solve D k s = Inr t"
    with outer_body_frame [of solve D k s t] show "?I k t"
      by auto
  next
    fix k and t :: "'r bcd_state"
    assume "?I k t"
    then show "?I (Suc k) (grow D t)"
      by (simp add: grow_fields)
  qed
  then show ?thesis by (cases ex) auto
qed

text \<open>
  C6, as the code has it. \<^verbatim>\<open>tau\<close> is computed once, from the initial \<^verbatim>\<open>rho\<close> of \<open>0.01\<close>,
  and never again: in whatever state the outer loop stands after any number of
  iterations, \<^verbatim>\<open>tau\<close> is \<open>1 / (Anorm\<^sup>2 * 0.01)\<close>, and every printed line shows this \<^verbatim>\<open>tau\<close>
  next to \<^verbatim>\<open>rho = 0.01 * sigma ^ k\<close>. After \<open>n\<close> completed iterations \<^verbatim>\<open>rho\<close> is
  \<open>0.01 * sigma ^ n\<close>. So \<^verbatim>\<open>tau = 1 / (Anorm\<^sup>2 * rho)\<close> holds for the current \<^verbatim>\<open>rho\<close>
  exactly as long as \<^verbatim>\<open>rho\<close> still has its initial value.
\<close>

theorem tau_fixed_at_initial_rho:
  assumes "init_state par D r = Inr st0"
    and "outer_loop solve D n 0 st0 = Inr (ex, st')"
  shows "tau st' = 1 / (Anorm ^ 2 * (1 / 100))
         \<and> (\<forall>l \<in> set (printed st').
               log_tau l = 1 / (Anorm ^ 2 * (1 / 100)) \<and> log_rho l = 1 / 100 * sigma ^ log_k l)
         \<and> (ex = Exhausted \<longrightarrow> rho st' = 1 / 100 * sigma ^ n)
         \<and> (tau st' = 1 / (Anorm ^ 2 * rho st') \<longleftrightarrow> rho st' = 1 / 100)"
proof -
  note f = init_state_fields [OF assms(1)]
  from outer_loop_tau [OF assms(2), of "1 / (Anorm ^ 2 * (1 / 100))" "1 / 100"] f
  have main: "tau st' = 1 / (Anorm ^ 2 * (1 / 100))
         \<and> (\<forall>l \<in> set (printed st').
               log_tau l = 1 / (Anorm ^ 2 * (1 / 100)) \<and> log_rho l = 1 / 100 * sigma ^ log_k l)
         \<and> (ex = Exhausted \<longrightarrow> rho st' = 1 / 100 * sigma ^ n)"
    by simp
  then have t: "tau st' = 1 / 4" by (simp add: Anorm_def)
  have "1 / 4 = 1 / (400 * x) \<longleftrightarrow> x = 1 / 100" for x :: real
    by (cases "x = 0") (auto simp: field_simps)
  then have "tau st' = 1 / (Anorm ^ 2 * rho st') \<longleftrightarrow> rho st' = 1 / 100"
    by (simp add: t Anorm_def)
  with main show ?thesis by blast
qed

theorem tau_fixed_at_initial_rho_witness:
  "init_state (toy_par 2 1) (toy_block 0 (- 1)) () = Inr (toy_start (toy_par 2 1) (- 1))
   \<and> map_sum id fst
        (outer_loop toy_oracle (toy_block 0 (- 1)) 2 0 (toy_start (toy_par 2 1) (- 1)))
       = Inr Exhausted
   \<and> map_sum id (tau \<circ> snd)
        (outer_loop toy_oracle (toy_block 0 (- 1)) 2 0 (toy_start (toy_par 2 1) (- 1)))
       = Inr (1 / 4)
   \<and> map_sum id (rho \<circ> snd)
        (outer_loop toy_oracle (toy_block 0 (- 1)) 2 0 (toy_start (toy_par 2 1) (- 1)))
       = Inr (1 / 100 * sigma ^ 2)"
proof -
  have i: "init_state (toy_par 2 1) (toy_block 0 (- 1)) () = Inr (toy_start (toy_par 2 1) (- 1))"
    by (rule toy_init)
  obtain s where r: "outer_loop toy_oracle (toy_block 0 (- 1)) 2 0 (toy_start (toy_par 2 1) (- 1))
      = Inr (Exhausted, s)"
    by (simp add: run_defs toy_defs vec_defs numeral_2_eq_2)
  from tau_fixed_at_initial_rho [OF i r] i r show ?thesis
    by (simp add: Anorm_def)
qed

text \<open>
  C6 as stated fails: with \<^verbatim>\<open>itermax = 2\<close> on the toy instance \<open>x \<le> 0\<close> the line printed
  in outer iteration 1, after one growth step, shows \<^verbatim>\<open>rho = 0.02\<close> and \<^verbatim>\<open>tau = 0.25\<close>,
  while \<open>1 / (Anorm\<^sup>2 * 0.02)\<close> is \<open>0.125\<close>.
\<close>

theorem tau_not_rederived:
  "map_sum id (printed \<circ> snd) (optimize_run toy_oracle (toy_par 2 1) (toy_block 0 (- 1)) ())
     = Inr [\<lparr>log_k = 0, log_cx = - 1, log_lobj = - (197 / 200), log_eps_pfeas = 1,
              log_eps_fp = 0, log_rho = 1 / 100, log_tau = 1 / 4, log_iter = 1\<rparr>,
            \<lparr>log_k = 1, log_cx = - 1, log_lobj = - (24 / 25), log_eps_pfeas = 1,
              log_eps_fp = 0, log_rho = 1 / 50, log_tau = 1 / 4, log_iter = 1\<rparr>]
   \<and> 1 / (Anorm ^ 2 * (1 / 50)) = (1 / 8 :: real)
   \<and> map_sum id (tau \<circ> snd) (optimize_run toy_oracle (toy_par 2 1) (toy_block 0 (- 1)) ())
     = Inr (1 / 4)
   \<and> map_sum id (rho \<circ> snd) (optimize_run toy_oracle (toy_par 2 1) (toy_block 0 (- 1)) ())
     = Inr (1 / 25)"
  by (simp add: run_defs toy_defs vec_defs numeral_2_eq_2)

subsection \<open>What \<^verbatim>\<open>optimize\<close> returns\<close>









end
